theory Spec2Isabelle
  imports Complex_Main
begin

section \<open>The downsampling driver (downsampling.py)\<close>

text \<open>
  The script is pipeline glue around two external tools (sambamba, mosdepth). The model
  follows its functions one by one. Python strings are \<open>string\<close> (the text handled
  here is ASCII), Python's unbounded integers are \<open>int\<close>, and a Python float is
  modelled by the rational number it stands for: rounding to a double, and the
  OverflowError of a quotient too large for one, are not part of the model. Every
  \<open>sys.exit\<close> and every other exception that the code of the script can raise is a
  value of \<open>error\<close>; logging calls have no result and are left out.
\<close>

subsection \<open>Errors\<close>

datatype error =
    SystemExit nat
  | AttributeError
  | TypeError
  | ValueError
  | IndexError
  | ZeroDivisionError
  | OSError

subsection \<open>String primitives of Python used by the script\<close>

text \<open>\<open>s.endswith(suf)\<close> for one suffix; a tuple of suffixes is the disjunction.\<close>

definition endswith :: "string \<Rightarrow> string \<Rightarrow> bool" where
  "endswith s suf = (length suf \<le> length s \<and> drop (length s - length suf) s = suf)"

text \<open>\<open>s.split(c)\<close> for a one-character separator: never empty, one more piece than
  there are separators. (The split of the rest is never empty, so the last case
  is never taken.)\<close>

fun py_split :: "char \<Rightarrow> string \<Rightarrow> string list" where
  "py_split c [] = [[]]"
| "py_split c (x # xs) =
     (if x = c then [] # py_split c xs
      else (case py_split c xs of
              w # ws \<Rightarrow> (x # w) # ws
            | [] \<Rightarrow> [[x]]))"

text \<open>Characters: the ASCII digits, and the ASCII characters for which
  \<open>str.isspace\<close> holds (tab, line feed, vertical tab, form feed, carriage return,
  the four separators 0x1C to 0x1F, space).\<close>

abbreviation TAB :: char where
  "TAB \<equiv> CHR 0x09"

abbreviation NL :: char where
  "NL \<equiv> CHR 0x0A"

abbreviation QUOTE :: char where
  "QUOTE \<equiv> CHR 0x27"

definition is_digit :: "char \<Rightarrow> bool" where
  "is_digit c = (c \<in> set ''0123456789'')"

definition digit_val :: "char \<Rightarrow> nat" where
  "digit_val c = length (takeWhile (\<lambda>d. d \<noteq> c) ''0123456789'')"

definition is_space :: "char \<Rightarrow> bool" where
  "is_space c = (c \<in> set [TAB, NL, CHR 0x0B, CHR 0x0C, CHR 0x0D,
                           CHR 0x1C, CHR 0x1D, CHR 0x1E, CHR 0x1F, CHR 0x20])"

text \<open>\<open>s.strip()\<close>: whitespace removed at both ends.\<close>

definition py_strip :: "string \<Rightarrow> string" where
  "py_strip s = rev (dropWhile is_space (rev (dropWhile is_space s)))"

text \<open>\<open>s.upper()\<close> on ASCII letters.\<close>

definition py_upper :: "string \<Rightarrow> string" where
  "py_upper s =
     map (\<lambda>c. if c \<in> set ''abcdefghijklmnopqrstuvwxyz''
              then ''ABCDEFGHIJKLMNOPQRSTUVWXYZ'' !
                     length (takeWhile (\<lambda>d. d \<noteq> c) ''abcdefghijklmnopqrstuvwxyz'')
              else c) s"

text \<open>\<open>re.split(r'\t+', s)\<close>: the pieces between maximal runs of tabs; a run at
  either end leaves an empty piece there. (Again the last case is never taken.)\<close>

fun re_split_tabs :: "string \<Rightarrow> string list" where
  "re_split_tabs [] = [[]]"
| "re_split_tabs (x # xs) =
     (if x = TAB then
        (if take 1 xs = [TAB] then re_split_tabs xs else [] # re_split_tabs xs)
      else (case re_split_tabs xs of
              w # ws \<Rightarrow> (x # w) # ws
            | [] \<Rightarrow> [[x]]))"

text \<open>\<open>xs[i]\<close> for an index that is not negative.\<close>

definition index :: "'a list \<Rightarrow> nat \<Rightarrow> error + 'a" where
  "index xs i = (if i < length xs then Inr (xs ! i) else Inl IndexError)"

text \<open>\<open>int(s)\<close> of a string, base ten: surrounding whitespace is dropped, one sign
  is allowed, then digits, where single underscores may stand between two digits.
  \<open>None\<close> is the ValueError. (The interpreter's limit on the number of digits of
  such a conversion is not modelled.)\<close>

fun py_digits :: "nat \<Rightarrow> bool \<Rightarrow> string \<Rightarrow> nat option" where
  "py_digits acc prev [] = (if prev then Some acc else None)"
| "py_digits acc prev (c # cs) =
     (if is_digit c then py_digits (10 * acc + digit_val c) True cs
      else if c = CHR ''_'' \<and> prev then py_digits acc False cs
      else None)"

definition py_int :: "string \<Rightarrow> int option" where
  "py_int s =
     (case py_strip s of
        [] \<Rightarrow> None
      | c # r \<Rightarrow>
          if c = CHR ''-'' then map_option (\<lambda>n. - int n) (py_digits 0 False r)
          else if c = CHR ''+'' then map_option int (py_digits 0 False r)
          else map_option int (py_digits 0 False (c # r)))"

text \<open>\<open>'%d' % n\<close>: the decimal numeral of an integer.\<close>

fun str_nat :: "nat \<Rightarrow> string" where
  "str_nat n =
     (if n < 10 then [''0123456789'' ! n]
      else str_nat (n div 10) @ [''0123456789'' ! (n mod 10)])"

declare str_nat.simps [simp del]

definition str_int :: "int \<Rightarrow> string" where
  "str_int i = (if i < 0 then CHR ''-'' # str_nat (nat (- i)) else str_nat (nat i))"

text \<open>\<open>'%f' % x\<close>: six decimals, the exact value rounded half to even, the sign
  kept when the value is negative.\<close>

definition round_half_even :: "rat \<Rightarrow> int" where
  "round_half_even x =
     (let f = \<lfloor>x\<rfloor>; d = x - of_int f
      in if d < 1 / 2 then f
         else if 1 / 2 < d then f + 1
         else if even f then f else f + 1)"

definition fmt_f :: "rat \<Rightarrow> string" where
  "fmt_f x =
     (let n = nat (round_half_even (\<bar>x\<bar> * 1000000));
          frac = str_nat (n mod 1000000)
      in (if x < 0 then ''-'' else []) @ str_nat (n div 1000000) @ ''.'' @
         replicate (6 - length frac) (CHR ''0'') @ frac)"

text \<open>The two regular expressions of the coverage filter, searched in a line:
  \<open>^[0-9]{1,2}\<close> and \<open>^chr[0-9]{1,2}\<close>. The anchor ties the match to the start
  of the line; one or two digits are taken and nothing is asked of what follows.\<close>

definition re_search_num :: "string \<Rightarrow> bool" where
  "re_search_num line = (1 \<le> length (takeWhile is_digit (take 2 line)))"

definition re_search_chr :: "string \<Rightarrow> bool" where
  "re_search_chr line =
     (take 3 line = ''chr'' \<and> 1 \<le> length (takeWhile is_digit (take 2 (drop 3 line))))"

text \<open>\<open>re.match("bam", s)\<close>: the pattern at the start of the string.\<close>

definition re_match_bam :: "string \<Rightarrow> bool" where
  "re_match_bam s = (take 3 s = ''bam'')"

subsection \<open>Python values and the argument namespace\<close>

text \<open>
  argparse stores every option under its own name; no option has a \<open>type\<close>, so each
  value is the string of the command line (or the default), \<open>None\<close> for an absent
  \<open>--sample_name\<close> or \<open>--tmp\<close>, and a boolean for the flag \<open>--skip_dupRm\<close>.
  \<open>parsed_args\<close> holds the eight values; \<open>namespace\<close> is the object the script
  binds to the global \<open>args\<close>, an attribute dictionary with exactly these eight
  names. Reading an attribute it does not have raises AttributeError.
\<close>

datatype pyval = PNone | PBool bool | PInt int | PFloat rat | PStr string

record parsed_args =
  arg_input_file :: string
  arg_output_dir :: string
  arg_coverage :: string
  arg_thread :: string
  arg_sample_name :: "string option"
  arg_skip_dupRm :: bool
  arg_tmp :: "string option"
  arg_loglevel :: string

definition opt_str :: "string option \<Rightarrow> pyval" where
  "opt_str v = (case v of None \<Rightarrow> PNone | Some s \<Rightarrow> PStr s)"

definition namespace :: "parsed_args \<Rightarrow> (string \<rightharpoonup> pyval)" where
  "namespace a =
     map_of
       [(''input_file'', PStr (arg_input_file a)),
        (''output_dir'', PStr (arg_output_dir a)),
        (''coverage'', PStr (arg_coverage a)),
        (''thread'', PStr (arg_thread a)),
        (''sample_name'', opt_str (arg_sample_name a)),
        (''skip_dupRm'', PBool (arg_skip_dupRm a)),
        (''tmp'', opt_str (arg_tmp a)),
        (''loglevel'', PStr (arg_loglevel a))]"

definition getattr :: "(string \<rightharpoonup> pyval) \<Rightarrow> string \<Rightarrow> error + pyval" where
  "getattr obj name = (case obj name of None \<Rightarrow> Inl AttributeError | Some v \<Rightarrow> Inr v)"

text \<open>\<open>pathlib.Path(v)\<close> takes a string (anything else is a TypeError).\<close>

definition path_of :: "pyval \<Rightarrow> error + string" where
  "path_of v = (case v of PStr s \<Rightarrow> Inr s | _ \<Rightarrow> Inl TypeError)"

subsection \<open>The environment\<close>

text \<open>
  The script acts on the outside world in three ways: \<open>pathlib.Path(p).mkdir(parents=True,
  exist_ok=True)\<close>, \<open>os.system(cmd)\<close> and \<open>open(p, "r")\<close>. The model records each such
  call, in order, in a history, and takes the answers of the outside world from an
  environment: the exit status of a command, whether a directory can be made, and the
  lines of a file (\<open>None\<close> when it cannot be opened), each depending on the calls made
  before. What the external tools do to the file system is not modelled.
\<close>

datatype event = Mkdir string | System string | Open string

type_synonym history = "event list"

record env =
  exit_status :: "history \<Rightarrow> string \<Rightarrow> int"
  mkdir_ok :: "history \<Rightarrow> string \<Rightarrow> bool"
  read_lines :: "history \<Rightarrow> string \<Rightarrow> string list option"

definition os_system :: "env \<Rightarrow> string \<Rightarrow> history \<Rightarrow> int \<times> history" where
  "os_system e cmd h = (exit_status e h cmd, h @ [System cmd])"

definition mkdir_p :: "env \<Rightarrow> string \<Rightarrow> history \<Rightarrow> (error + unit) \<times> history" where
  "mkdir_p e p h = (if mkdir_ok e h p then Inr () else Inl OSError, h @ [Mkdir p])"

definition open_r :: "env \<Rightarrow> string \<Rightarrow> history \<Rightarrow> (error + string list) \<times> history" where
  "open_r e p h =
     (case read_lines e h p of None \<Rightarrow> Inl OSError | Some ls \<Rightarrow> Inr ls, h @ [Open p])"

text \<open>Sequencing: an error ends the run with the history reached so far.\<close>

definition then_do ::
  "(error + 'a) \<times> history \<Rightarrow> ('a \<Rightarrow> history \<Rightarrow> (error + 'b) \<times> history) \<Rightarrow>
   (error + 'b) \<times> history" where
  "then_do m f = (case m of (Inl err, h) \<Rightarrow> (Inl err, h) | (Inr x, h) \<Rightarrow> f x h)"

subsection \<open>set_logging\<close>

text \<open>The names of the logging module, in upper case, that are bound to integers.\<close>

definition logging_levels :: "string list" where
  "logging_levels =
     [''CRITICAL'', ''FATAL'', ''ERROR'', ''WARNING'', ''WARN'', ''INFO'', ''DEBUG'',
      ''NOTSET'']"

definition set_logging :: "string \<Rightarrow> error + unit" where
  "set_logging loglevel =
     (if py_upper loglevel \<in> set logging_levels then Inr () else Inl ValueError)"

subsection \<open>check_type\<close>

definition check_type :: "string \<Rightarrow> error + string" where
  "check_type input_file =
     (if endswith input_file ''.cram'' \<or> endswith input_file ''.CRAM'' then Inr ''cram''
      else if endswith input_file ''.bam'' \<or> endswith input_file ''.BAM'' then Inr ''bam''
      else Inl (SystemExit 1))"

subsection \<open>get_ID\<close>

text \<open>\<open>sample_name\<close> is \<open>None\<close> or a string; \<open>xs[-1]\<close> and \<open>xs[0]\<close> are taken of
  the results of \<open>split\<close>, which are never empty, so neither can raise.\<close>

definition get_ID :: "string \<Rightarrow> string option \<Rightarrow> string" where
  "get_ID input_file sample_name =
     (case sample_name of
        Some name \<Rightarrow> name
      | None \<Rightarrow>
          (let bam = last (py_split (CHR ''/'') input_file);
               sampleID = hd (py_split (CHR ''.'') bam)
           in sampleID))"

subsection \<open>temp_output_loc\<close>

text \<open>The second branch reads \<open>args.out_dir\<close> of the global \<open>args\<close> before it
  returns.\<close>

definition temp_output_loc ::
  "env \<Rightarrow> (string \<rightharpoonup> pyval) \<Rightarrow> string \<Rightarrow> string option \<Rightarrow> string \<Rightarrow> string \<Rightarrow>
   history \<Rightarrow> (error + string) \<times> history" where
  "temp_output_loc e args out_dir tmp sampleID cov h =
     (case tmp of
        Some t \<Rightarrow>
          (let tempLoc = t @ ''/'' @ sampleID @ ''/'' @ cov @ ''x''
           in then_do (mkdir_p e tempLoc h) (\<lambda>_ h'. (Inr tempLoc, h')))
      | None \<Rightarrow>
          (let tempLoc = out_dir @ ''/'' @ sampleID @ ''/tmp''
           in case getattr args ''out_dir'' of
                Inl err \<Rightarrow> (Inl err, h)
              | Inr v \<Rightarrow>
                  (case path_of v of
                     Inl err \<Rightarrow> (Inl err, h)
                   | Inr p \<Rightarrow> then_do (mkdir_p e p h) (\<lambda>_ h'. (Inr tempLoc, h')))))"

subsection \<open>remove_dup\<close>

definition remove_dup ::
  "env \<Rightarrow> string \<Rightarrow> string \<Rightarrow> string \<Rightarrow> string \<Rightarrow> bool \<Rightarrow> string \<Rightarrow>
   history \<Rightarrow> (error + string) \<times> history" where
  "remove_dup e input_file tempLoc file_type sampleID skip_dupRm thread h =
     (let filterString =
            (if skip_dupRm then ''not (unmapped or mate_is_unmapped) and paired''
             else ''not (unmapped or mate_is_unmapped) and paired and not duplicate'');
          cram = (if re_match_bam file_type then [] else ''-C'')
      in case py_int thread of
           None \<Rightarrow> (Inl ValueError, h)
         | Some t \<Rightarrow>
             (let cmd = ''sambamba view -F '' @ [QUOTE] @ filterString @ [QUOTE] @
                        '' -q '' @ cram @ '' -f bam -t '' @ str_int t @ '' -o '' @
                        tempLoc @ ''/'' @ sampleID @ ''.dupRm.bam '' @ input_file
              in case os_system e cmd h of
                   (status, h') \<Rightarrow>
                     if status \<noteq> 0 then (Inl (SystemExit 1), h')
                     else (Inr (tempLoc @ ''/'' @ sampleID @ ''.dupRm.bam''), h')))"

subsection \<open>get_coverage\<close>

text \<open>The test of the loop, and what the loop reads from a line that passes it.\<close>

definition row_matches :: "string \<Rightarrow> bool" where
  "row_matches line = (re_search_num line \<or> re_search_chr line)"

definition parse_row :: "string \<Rightarrow> error + (int \<times> int)" where
  "parse_row line =
     (let array_line = re_split_tabs (py_strip line)
      in case index array_line 1 of
           Inl err \<Rightarrow> Inl err
         | Inr f1 \<Rightarrow>
             (case py_int f1 of
                None \<Rightarrow> Inl ValueError
              | Some l \<Rightarrow>
                  (case index array_line 2 of
                     Inl err \<Rightarrow> Inl err
                   | Inr f2 \<Rightarrow>
                       (case py_int f2 of
                          None \<Rightarrow> Inl ValueError
                        | Some b \<Rightarrow> Inr (l, b)))))"

fun get_coverage_loop :: "string list \<Rightarrow> int \<Rightarrow> int \<Rightarrow> error + (int \<times> int)" where
  "get_coverage_loop [] length' bases = Inr (length', bases)"
| "get_coverage_loop (line # mos_cov) length' bases =
     (if row_matches line then
        (case parse_row line of
           Inl err \<Rightarrow> Inl err
         | Inr (l, b) \<Rightarrow> get_coverage_loop mos_cov (length' + l) (bases + b))
      else get_coverage_loop mos_cov length' bases)"

definition get_coverage ::
  "env \<Rightarrow> string \<Rightarrow> string \<Rightarrow> string \<Rightarrow> string \<Rightarrow> history \<Rightarrow> (error + rat) \<times> history" where
  "get_coverage e Bam sampleID tempFolder subfolder h =
     (let sub_tmp = tempFolder @ ''/'' @ subfolder
      in then_do (mkdir_p e sub_tmp h) (\<lambda>_ h1.
           (let cmd = ''mosdepth --no-per-base --threads 4 '' @ sub_tmp @ ''/'' @
                      sampleID @ '' '' @ Bam @ '' ''
            in case os_system e cmd h1 of
                 (status, h2) \<Rightarrow>
                   if status \<noteq> 0 then (Inl (SystemExit 1), h2)
                   else
                     (let summary_file =
                            sub_tmp @ ''/'' @ sampleID @ ''.mosdepth.summary.txt''
                      in then_do (open_r e summary_file h2) (\<lambda>mos_cov h3.
                           (case get_coverage_loop mos_cov 0 0 of
                              Inl err \<Rightarrow> (Inl err, h3)
                            | Inr (length', bases) \<Rightarrow>
                                if length' = 0 then (Inl ZeroDivisionError, h3)
                                else (Inr (of_int bases / of_int length'), h3)))))))"

subsection \<open>get_fraction\<close>

text \<open>
  \<open>neededCov >= bamCov\<close> comes first. \<open>bamCov\<close> is a float; against it an integer,
  a float or a boolean compares by value, and a string or \<open>None\<close> cannot be
  ordered: the comparison raises TypeError. Only a number reaches the division, where
  \<open>float(neededCov)\<close> is its value.
\<close>

definition num_of :: "pyval \<Rightarrow> rat option" where
  "num_of v =
     (case v of
        PInt i \<Rightarrow> Some (of_int i)
      | PFloat x \<Rightarrow> Some x
      | PBool b \<Rightarrow> Some (if b then 1 else 0)
      | PStr s \<Rightarrow> None
      | PNone \<Rightarrow> None)"

definition get_fraction :: "pyval \<Rightarrow> rat \<Rightarrow> error + rat" where
  "get_fraction neededCov bamCov =
     (case num_of neededCov of
        None \<Rightarrow> Inl TypeError
      | Some needed \<Rightarrow>
          if needed \<ge> bamCov then Inl (SystemExit 1)
          else if bamCov = 0 then Inl ZeroDivisionError
          else Inr (needed / bamCov))"

subsection \<open>downsample_bam\<close>

definition downsample_bam ::
  "env \<Rightarrow> string \<Rightarrow> string \<Rightarrow> string \<Rightarrow> rat \<Rightarrow> int \<Rightarrow> string \<Rightarrow>
   history \<Rightarrow> (error + string) \<times> history" where
  "downsample_bam e dupRemovedBam output_dir sampleID fraction seed cov h =
     (let out_prefix = output_dir @ ''/'' @ sampleID @ ''/'' @ cov @ ''x''
      in then_do (mkdir_p e out_prefix h) (\<lambda>_ h1.
           (let cmd = ''sambamba view -s '' @ fmt_f fraction @ '' --subsampling-seed='' @
                      str_int seed @ '' -f bam -o '' @ out_prefix @ ''/'' @ sampleID @
                      ''.dupRm.subsam.bam '' @ dupRemovedBam
            in case os_system e cmd h1 of
                 (status, h2) \<Rightarrow>
                   if status \<noteq> 0 then (Inl (SystemExit 1), h2)
                   else (Inr (out_prefix @ ''/'' @ sampleID @ ''.dupRm.subsam.bam''), h2))))"

subsection \<open>cleanUp\<close>

text \<open>The status that \<open>os.system\<close> returns is dropped; the function has no way to
  fail.\<close>

definition cleanUp :: "env \<Rightarrow> string \<Rightarrow> history \<Rightarrow> history" where
  "cleanUp e tempFolder h = snd (os_system e (''rm -rf '' @ tempFolder) h)"

subsection \<open>The driver\<close>

text \<open>
  The body under \<open>__main__\<close>, from the namespace that \<open>parse_args\<close> returned (its
  own checks happen before, in the history the run starts from). The exit status of
  the process is 0 when the body runs to its end, the argument of \<open>sys.exit\<close>, and 1
  for an exception nobody catches.
\<close>

definition seed :: int where
  "seed = 10"

text \<open>The last two statements of the body, on their own: the depth summary of the
  downsampled file, whose value is only logged, and the cleanup.\<close>

definition report_and_cleanUp ::
  "env \<Rightarrow> string \<Rightarrow> string \<Rightarrow> string \<Rightarrow> history \<Rightarrow> (error + unit) \<times> history" where
  "report_and_cleanUp e downsampledBam sampleID tempFolder h =
     then_do (get_coverage e downsampledBam sampleID tempFolder ''R2'' h) (\<lambda>newCov h5.
       (Inr (), cleanUp e tempFolder h5))"

definition main :: "env \<Rightarrow> parsed_args \<Rightarrow> history \<Rightarrow> (error + unit) \<times> history" where
  "main e a h =
     (case set_logging (arg_loglevel a) of
        Inl err \<Rightarrow> (Inl err, h)
      | Inr _ \<Rightarrow>
     (case check_type (arg_input_file a) of
        Inl err \<Rightarrow> (Inl err, h)
      | Inr file_type \<Rightarrow>
     (let sampleID = get_ID (arg_input_file a) (arg_sample_name a)
      in then_do (temp_output_loc e (namespace a) (arg_output_dir a) (arg_tmp a)
                    sampleID (arg_coverage a) h) (\<lambda>tempFolder h1.
         then_do (remove_dup e (arg_input_file a) tempFolder file_type sampleID
                    (arg_skip_dupRm a) (arg_thread a) h1) (\<lambda>dupRemovedBam h2.
         then_do (get_coverage e dupRemovedBam sampleID tempFolder ''R1'' h2) (\<lambda>cov h3.
         (case get_fraction (PStr (arg_coverage a)) cov of
            Inl err \<Rightarrow> (Inl err, h3)
          | Inr fraction \<Rightarrow>
         then_do (downsample_bam e dupRemovedBam (arg_output_dir a) sampleID fraction
                    seed (arg_coverage a) h3) (\<lambda>downsampledBam h4.
           report_and_cleanUp e downsampledBam sampleID tempFolder h4))))))))"


subsection \<open>Notions used to state the properties\<close>

text \<open>The shell commands of a history, in the order they were run.\<close>

fun commands :: "history \<Rightarrow> string list" where
  "commands [] = []"
| "commands (Mkdir p # h) = commands h"
| "commands (System c # h) = c # commands h"
| "commands (Open p # h) = commands h"

text \<open>What the loop of \<open>get_coverage\<close> adds for a line it counts, and whether it
  can read the line at all.\<close>

definition row_ok :: "string \<Rightarrow> bool" where
  "row_ok line = (case parse_row line of Inl err \<Rightarrow> False | Inr r \<Rightarrow> True)"

definition row_length :: "string \<Rightarrow> int" where
  "row_length line = (case parse_row line of Inl err \<Rightarrow> 0 | Inr (l, b) \<Rightarrow> l)"

definition row_bases :: "string \<Rightarrow> int" where
  "row_bases line = (case parse_row line of Inl err \<Rightarrow> 0 | Inr (l, b) \<Rightarrow> b)"


definition contig_name :: "string \<Rightarrow> string" where
  "contig_name line = takeWhile (\<lambda>c. c \<noteq> TAB) line"


text \<open>
  Three environments for concrete runs. In \<open>env_ok report\<close> every command exits with
  status 0, every directory can be made and every file that is opened holds the lines
  \<open>report\<close>. \<open>env_rm_fails report\<close> differs only in that a command starting with
  \<open>rm -rf\<close> exits with status 256. In \<open>env_status s\<close> every command exits with
  status \<open>s\<close> and no file can be opened.
\<close>

definition env_ok :: "string list \<Rightarrow> env" where
  "env_ok report =
     \<lparr>exit_status = (\<lambda>h cmd. 0), mkdir_ok = (\<lambda>h p. True),
      read_lines = (\<lambda>h p. Some report)\<rparr>"



text \<open>A row of a summary report as mosdepth writes it: name, length, bases and the
  mean, separated by tabs, with the line feed that iterating over the file keeps.\<close>

definition report_row :: "string \<Rightarrow> string \<Rightarrow> string \<Rightarrow> string \<Rightarrow> string" where
  "report_row name len bases mean =
     name @ [TAB] @ len @ [TAB] @ bases @ [TAB] @ mean @ [NL]"

text \<open>
  \<open>report_read\<close>: in the environment, the directory for the report can be made, the
  run of mosdepth that \<open>get_coverage\<close> starts from history \<open>h\<close> exits with status 0,
  and the file opened afterwards holds \<open>lines\<close>.
\<close>

definition report_read ::
  "env \<Rightarrow> history \<Rightarrow> string \<Rightarrow> string \<Rightarrow> string \<Rightarrow> string \<Rightarrow> string list \<Rightarrow> bool" where
  "report_read e h Bam sampleID tempFolder subfolder lines =
     (let sub_tmp = tempFolder @ ''/'' @ subfolder;
          cmd = ''mosdepth --no-per-base --threads 4 '' @ sub_tmp @ ''/'' @ sampleID @
                '' '' @ Bam @ '' ''
      in mkdir_ok e h sub_tmp \<and>
         exit_status e (h @ [Mkdir sub_tmp]) cmd = 0 \<and>
         read_lines e (h @ [Mkdir sub_tmp, System cmd])
           (sub_tmp @ ''/'' @ sampleID @ ''.mosdepth.summary.txt'') = Some lines)"




definition deep_report :: "string list" where
  "deep_report = [report_row ''chr1'' ''1000'' ''30000'' ''30.00'']"

definition run_args :: parsed_args where
  "run_args =
     \<lparr>arg_input_file = ''/data/sample1.bam'', arg_output_dir = ''/out'',
      arg_coverage = ''15'', arg_thread = ''4'', arg_sample_name = None,
      arg_skip_dupRm = False, arg_tmp = Some ''/scratch'', arg_loglevel = ''DEBUG''\<rparr>"

section \<open>Properties\<close>

subsection \<open>Strings\<close>

lemma endswith_iff: "endswith s suf \<longleftrightarrow> (\<exists>p. s = p @ suf)"
proof
  assume "endswith s suf"
  then have "s = take (length s - length suf) s @ suf"
    by (metis append_take_drop_id endswith_def)
  then show "\<exists>p. s = p @ suf" ..
next
  assume "\<exists>p. s = p @ suf"
  then show "endswith s suf" by (auto simp: endswith_def)
qed

lemma py_split_nonempty: "py_split c s \<noteq> []"
  by (induction s) (auto split: list.splits)

lemma hd_py_split: "hd (py_split c s) = takeWhile (\<lambda>x. x \<noteq> c) s"
  by (induction s) (auto split: list.splits simp: py_split_nonempty)

lemma py_split_no_sep: "c \<notin> set s \<Longrightarrow> py_split c s = [s]"
  by (induction s) auto

lemma py_split_append: "py_split c (xs @ c # ys) = py_split c xs @ py_split c ys"
proof (induction xs)
  case Nil
  show ?case by simp
next
  case (Cons x xs)
  have "py_split c xs \<noteq> []" by (rule py_split_nonempty)
  then show ?case using Cons.IH by (cases "py_split c xs") auto
qed

text \<open>The last piece is what follows the final separator (the whole string when there
  is none).\<close>

lemma last_py_split_cases:
  "(c \<notin> set s \<and> last (py_split c s) = s) \<or>
   (\<exists>pre. s = pre @ c # last (py_split c s) \<and> c \<notin> set (last (py_split c s)))"
proof (cases "c \<in> set s")
  case False
  then show ?thesis by (simp add: py_split_no_sep)
next
  case True
  then obtain pre post where s: "s = pre @ c # post" and post: "c \<notin> set post"
    by (meson split_list_last)
  have "last (py_split c s) = last (py_split c pre @ py_split c post)"
    by (simp add: s py_split_append)
  also have "\<dots> = post"
    using post by (simp add: py_split_no_sep)
  finally show ?thesis using s post by auto
qed


subsection \<open>check_type\<close>

text \<open>
  C3 (amended). \<open>check_type\<close> compares the end of the file name with four
  spellings only: a name ending in \<open>.cram\<close> or \<open>.CRAM\<close> gives cram, otherwise a
  name ending in \<open>.bam\<close> or \<open>.BAM\<close> gives bam, and every other name, a suffix in
  mixed case included, ends the process with exit status 1.
\<close>

theorem check_type_suffixes:
  "check_type f =
     (if (\<exists>p. f = p @ ''.cram'') \<or> (\<exists>p. f = p @ ''.CRAM'') then Inr ''cram''
      else if (\<exists>p. f = p @ ''.bam'') \<or> (\<exists>p. f = p @ ''.BAM'') then Inr ''bam''
      else Inl (SystemExit 1))"
  by (simp add: check_type_def endswith_iff)

theorem check_type_suffixes_witness:
  "check_type ''/data/sample1.BAM'' = Inr ''bam'' \<and>
   check_type ''/data/sample1.cram'' = Inr ''cram'' \<and>
   check_type ''/data/sample1.sam'' = Inl (SystemExit 1)"
  using check_type_suffixes [of "''/data/sample1.BAM''", folded endswith_iff]
        check_type_suffixes [of "''/data/sample1.cram''", folded endswith_iff]
        check_type_suffixes [of "''/data/sample1.sam''", folded endswith_iff]
  by (simp add: endswith_def)

text \<open>The suffix is not read case-insensitively: \<open>.Bam\<close> is refused.\<close>

theorem check_type_mixed_case_counterexample:
  "check_type ''sample1.Bam'' = Inl (SystemExit 1)"
  by (simp add: check_type_def endswith_def)

subsection \<open>get_ID\<close>

lemma get_ID_None_decomp:
  "\<exists>pre post. f = pre @ get_ID f None @ post \<and>
      (pre = [] \<or> last pre = CHR ''/'') \<and>
      CHR ''/'' \<notin> set (get_ID f None @ post) \<and>
      CHR ''.'' \<notin> set (get_ID f None) \<and>
      (post = [] \<or> hd post = CHR ''.'')"
proof -
  define seg where "seg = last (py_split (CHR ''/'') f)"
  define r where "r = takeWhile (\<lambda>x. x \<noteq> CHR ''.'') seg"
  define post where "post = dropWhile (\<lambda>x. x \<noteq> CHR ''.'') seg"
  have id: "get_ID f None = r"
    by (simp add: get_ID_def seg_def r_def hd_py_split)
  have seg: "seg = r @ post"
    by (simp add: r_def post_def)
  have nodot: "CHR ''.'' \<notin> set r"
    unfolding r_def by (auto dest: set_takeWhileD)
  have post: "post = [] \<or> hd post = CHR ''.''"
    unfolding post_def using hd_dropWhile [of "\<lambda>x. x \<noteq> CHR ''.''" seg] by auto
  from last_py_split_cases [of "CHR ''/''" f]
  obtain pre where pre: "f = pre @ seg" "pre = [] \<or> last pre = CHR ''/''"
    and noslash: "CHR ''/'' \<notin> set seg"
  proof (elim disjE exE conjE)
    assume "CHR ''/'' \<notin> set f" "last (py_split (CHR ''/'') f) = f"
    then show ?thesis using that [of "[]"] by (simp add: seg_def)
  next
    fix p
    assume "f = p @ CHR ''/'' # last (py_split (CHR ''/'') f)"
      "CHR ''/'' \<notin> set (last (py_split (CHR ''/'') f))"
    then show ?thesis using that [of "p @ ''/''"] by (simp add: seg_def)
  qed
  show ?thesis
    using pre noslash nodot post unfolding id seg
    by (intro exI [of _ pre] exI [of _ post]) simp
qed

text \<open>
  C6. An explicit sample name is returned unchanged, whatever the file name. Without
  one, the result is the first dot-delimited token of the last path segment: the
  input is \<open>pre @ result @ post\<close> where \<open>pre\<close> is empty or ends with a slash, no
  slash follows, the result has no dot, and \<open>post\<close> is empty or starts with a dot.
  In particular \<open>sample1.bqsr.sorted.bam\<close> gives \<open>sample1\<close>.
\<close>

theorem get_ID_spec:
  "get_ID f (Some name) = name \<and>
   (\<exists>pre post. f = pre @ get_ID f None @ post \<and>
      (pre = [] \<or> last pre = CHR ''/'') \<and>
      CHR ''/'' \<notin> set (get_ID f None @ post) \<and>
      CHR ''.'' \<notin> set (get_ID f None) \<and>
      (post = [] \<or> hd post = CHR ''.'')) \<and>
   get_ID ''sample1.bqsr.sorted.bam'' None = ''sample1''"
proof (intro conjI)
  show "get_ID f (Some name) = name"
    by (simp add: get_ID_def)
  show "\<exists>pre post. f = pre @ get_ID f None @ post \<and>
      (pre = [] \<or> last pre = CHR ''/'') \<and>
      CHR ''/'' \<notin> set (get_ID f None @ post) \<and>
      CHR ''.'' \<notin> set (get_ID f None) \<and>
      (post = [] \<or> hd post = CHR ''.'')"
    by (rule get_ID_None_decomp)
  show "get_ID ''sample1.bqsr.sorted.bam'' None = ''sample1''"
    by (simp add: get_ID_def)
qed

theorem get_ID_spec_witness:
  "get_ID ''/data/run7/sample1.bqsr.sorted.bam'' (Some ''SRR11321732_hg19'') = ''SRR11321732_hg19'' \<and>
   get_ID ''/data/run7/sample1.bqsr.sorted.bam'' None = ''sample1''"
  using get_ID_spec [of "''/data/run7/sample1.bqsr.sorted.bam''" "''SRR11321732_hg19''"]
  by (simp add: get_ID_def del: ex_simps)

subsection \<open>Concrete values\<close>

text \<open>Evaluations that the concrete runs below share.\<close>

lemma py_int_4: "py_int ''4'' = Some 4"
  by (simp add: py_int_def py_strip_def is_space_def is_digit_def digit_val_def)

lemma str_int_4: "str_int 4 = ''4''"
  by (simp add: str_int_def str_nat.simps)






lemma env_ok_sel:
  "exit_status (env_ok report) h cmd = 0"
  "mkdir_ok (env_ok report) h p"
  "read_lines (env_ok report) h p = Some report"
  by (simp_all add: env_ok_def)

lemma set_logging_DEBUG: "set_logging ''DEBUG'' = Inr ()"
  by (simp add: set_logging_def py_upper_def logging_levels_def)

lemma check_type_sample1: "check_type ''/data/sample1.bam'' = Inr ''bam''"
  by (simp add: check_type_def endswith_def)

lemma get_ID_sample1: "get_ID ''/data/sample1.bam'' None = ''sample1''"
  by (simp add: get_ID_def)

lemmas row_eval =
  parse_row_def report_row_def py_strip_def is_space_def index_def py_int_def
  is_digit_def digit_val_def row_matches_def re_search_num_def re_search_chr_def
  row_ok_def row_length_def row_bases_def contig_name_def







lemma row_deep:
  "row_matches (report_row ''chr1'' ''1000'' ''30000'' ''30.00'')"
  "parse_row (report_row ''chr1'' ''1000'' ''30000'' ''30.00'') = Inr (1000, 30000)"
  by (simp_all add: row_eval)











subsection \<open>temp_output_loc\<close>

lemma namespace_out_dir: "namespace a ''out_dir'' = None"
  by (simp add: namespace_def)

lemma namespace_output_dir: "namespace a ''output_dir'' = Some (PStr (arg_output_dir a))"
  by (simp add: namespace_def)

lemma temp_output_loc_tmp:
  "temp_output_loc e args out_dir (Some t) sampleID cov h =
     (if mkdir_ok e h (t @ ''/'' @ sampleID @ ''/'' @ cov @ ''x'')
      then Inr (t @ ''/'' @ sampleID @ ''/'' @ cov @ ''x'') else Inl OSError,
      h @ [Mkdir (t @ ''/'' @ sampleID @ ''/'' @ cov @ ''x'')])"
  by (simp add: temp_output_loc_def then_do_def mkdir_p_def Let_def)

text \<open>
  C4. With a tmp root (lemma \<open>temp_output_loc_tmp\<close>) the function asks for the
  directory \<open>{tmp}/{sampleID}/{coverage}x\<close>, parents included, and returns that path.
  Without one it must create and return \<open>{outputDir}/{sampleID}/tmp\<close>; the code reads
  \<open>args.out_dir\<close> there, an attribute that the namespace of \<open>parse_args\<close> does
  not have (the option is \<open>output_dir\<close>), so for every input the call ends in
  AttributeError, nothing is created and nothing is returned.
\<close>

theorem temp_output_loc_default_fails:
  "temp_output_loc e (namespace a) out_dir None sampleID cov h = (Inl AttributeError, h)"
  by (simp add: temp_output_loc_def getattr_def namespace_out_dir Let_def)

subsection \<open>remove_dup\<close>

lemma remove_dup_run:
  assumes "py_int thread = Some t" and "file_type = ''cram'' \<or> file_type = ''bam''"
  shows "remove_dup e input_file tempLoc file_type sampleID skip_dupRm thread h =
     (let cmd = ''sambamba view -F '' @ [QUOTE] @
                ''not (unmapped or mate_is_unmapped) and paired'' @
                (if skip_dupRm then [] else '' and not duplicate'') @ [QUOTE] @
                '' -q '' @ (if file_type = ''cram'' then ''-C'' else []) @
                '' -f bam -t '' @ str_int t @ '' -o '' @
                tempLoc @ ''/'' @ sampleID @ ''.dupRm.bam '' @ input_file
      in (if exit_status e h cmd = 0 then Inr (tempLoc @ ''/'' @ sampleID @ ''.dupRm.bam'')
          else Inl (SystemExit 1),
          h @ [System cmd]))"
  using assms
  by (auto simp: remove_dup_def os_system_def re_match_bam_def Let_def)



subsection \<open>get_coverage\<close>


lemma get_coverage_run:
  assumes "report_read e h Bam sampleID tempFolder subfolder lines"
  shows "get_coverage e Bam sampleID tempFolder subfolder h =
     (case get_coverage_loop lines 0 0 of
        Inl err \<Rightarrow> Inl err
      | Inr (l, b) \<Rightarrow> if l = 0 then Inl ZeroDivisionError else Inr (of_int b / of_int l),
      h @ [Mkdir (tempFolder @ ''/'' @ subfolder),
           System (''mosdepth --no-per-base --threads 4 '' @ tempFolder @ ''/'' @
                   subfolder @ ''/'' @ sampleID @ '' '' @ Bam @ '' ''),
           Open (tempFolder @ ''/'' @ subfolder @ ''/'' @ sampleID @
                 ''.mosdepth.summary.txt'')])"
  using assms
  by (auto simp: get_coverage_def report_read_def then_do_def mkdir_p_def os_system_def
      open_r_def Let_def split: sum.splits prod.splits)

lemma report_read_env_ok: "report_read (env_ok report) h Bam sampleID tempFolder subfolder report"
  by (simp add: report_read_def env_ok_def)






subsection \<open>get_fraction\<close>

lemma get_fraction_str: "get_fraction (PStr s) bamCov = Inl TypeError"
  by (simp add: get_fraction_def num_of_def)




subsection \<open>downsample_bam\<close>



subsection \<open>cleanUp\<close>



subsection \<open>The driver\<close>

text \<open>
  No run of the driver reaches the subsampler or the cleanup. \<open>get_fraction\<close> is
  called with \<open>args.coverage\<close>, a string, and comparing it with the measured coverage
  raises TypeError; every earlier way out is an error as well. So every run ends in
  an error, and the only commands it has run are the filter and the first depth
  summary.
\<close>

lemma main_fails: "\<exists>err. fst (main e a h) = Inl err"
  by (auto simp: main_def then_do_def get_fraction_str Let_def split: sum.splits prod.splits)

lemma commands_append: "commands (h @ h') = commands h @ commands h'"
  by (induction h rule: commands.induct) simp_all

lemma temp_output_loc_events:
  "\<exists>evs. snd (temp_output_loc e args out_dir tmp sampleID cov h) = h @ evs \<and> commands evs = []"
  by (auto simp: temp_output_loc_def then_do_def mkdir_p_def Let_def
      split: option.splits sum.splits)

lemma remove_dup_events:
  "\<exists>evs. snd (remove_dup e input_file tempLoc file_type sampleID skip_dupRm thread h) = h @ evs \<and>
     list_all (\<lambda>c. take 17 c = ''sambamba view -F '') (commands evs)"
  by (auto simp: remove_dup_def os_system_def Let_def split: option.splits)

lemma get_coverage_events:
  "\<exists>evs. snd (get_coverage e Bam sampleID tempFolder subfolder h) = h @ evs \<and>
     list_all (\<lambda>c. take 9 c = ''mosdepth '') (commands evs)"
  by (auto simp: get_coverage_def then_do_def mkdir_p_def os_system_def open_r_def Let_def
      split: option.splits sum.splits prod.splits)

lemma main_events:
  "\<exists>evs. snd (main e a h) = h @ evs \<and>
     list_all (\<lambda>c. take 17 c = ''sambamba view -F '' \<or> take 9 c = ''mosdepth '')
       (commands evs)"
proof -
  let ?P = "\<lambda>c. take 17 c = ''sambamba view -F '' \<or> take 9 c = ''mosdepth ''"
  have nothing: "\<exists>evs. h = h @ evs \<and> list_all ?P (commands evs)"
    by (rule exI [of _ "[]"]) simp
  show ?thesis
  proof (cases "set_logging (arg_loglevel a)")
    case (Inl err)
    then show ?thesis using nothing by (simp add: main_def)
  next
    case l: (Inr u)
    show ?thesis
    proof (cases "check_type (arg_input_file a)")
      case (Inl err)
      then show ?thesis using nothing l by (simp add: main_def)
    next
      case c: (Inr file_type)
      define sid where "sid = get_ID (arg_input_file a) (arg_sample_name a)"
      define r1 where "r1 = temp_output_loc e (namespace a) (arg_output_dir a) (arg_tmp a)
                    sid (arg_coverage a) h"
      obtain ev1 where ev1: "snd r1 = h @ ev1" "commands ev1 = []"
        using temp_output_loc_events unfolding r1_def by blast
      show ?thesis
      proof (cases "fst r1")
        case (Inl err)
        then have "main e a h = (Inl err, snd r1)"
          using l c by (cases r1) (simp add: main_def then_do_def sid_def r1_def Let_def)
        then show ?thesis using ev1 by (intro exI [of _ ev1]) simp
      next
        case t: (Inr tempFolder)
        define r2 where "r2 = remove_dup e (arg_input_file a) tempFolder file_type sid
                    (arg_skip_dupRm a) (arg_thread a) (snd r1)"
        obtain ev2 where ev2: "snd r2 = snd r1 @ ev2"
          "list_all (\<lambda>c. take 17 c = ''sambamba view -F '') (commands ev2)"
          using remove_dup_events unfolding r2_def by blast
        have P2: "list_all ?P (commands (ev1 @ ev2))"
          using ev1 ev2 by (auto simp: commands_append list_all_iff)
        show ?thesis
        proof (cases "fst r2")
          case (Inl err)
          then have "main e a h = (Inl err, snd r2)"
            using l c t
            by (cases r1; cases r2)
              (simp add: main_def then_do_def sid_def r1_def r2_def Let_def)
          then show ?thesis using ev1 ev2 P2 by (intro exI [of _ "ev1 @ ev2"]) simp
        next
          case d: (Inr dupRemovedBam)
          define r3 where "r3 = get_coverage e dupRemovedBam sid tempFolder ''R1'' (snd r2)"
          obtain ev3 where ev3: "snd r3 = snd r2 @ ev3"
            "list_all (\<lambda>c. take 9 c = ''mosdepth '') (commands ev3)"
            using get_coverage_events unfolding r3_def by blast
          have P3: "list_all ?P (commands (ev1 @ ev2 @ ev3))"
            using ev1 ev2 ev3 by (auto simp: commands_append list_all_iff)
          have "\<exists>err. main e a h = (Inl err, snd r3)"
            using l c t d
            by (cases r1; cases r2; cases r3; cases "fst r3")
              (simp_all add: main_def then_do_def sid_def r1_def r2_def r3_def Let_def
                get_fraction_str)
          then show ?thesis using ev1 ev2 ev3 P3 by (intro exI [of _ "ev1 @ ev2 @ ev3"]) auto
        qed
      qed
    qed
  qed
qed

text \<open>
  C7. A run in which every tool succeeds and the measured coverage (30) is above the
  target (15) should end with the downsampled file in place and the workspace removed.
  The code instead ends in TypeError after the first depth summary: the subsampler
  and \<open>rm -rf\<close> are never run, the workspace \<open>/scratch/sample1/15x\<close> stays.
\<close>

theorem main_never_downsamples:
  "main (env_ok deep_report) run_args [] =
     (Inl TypeError,
      [Mkdir ''/scratch/sample1/15x'',
       System (''sambamba view -F '' @ [QUOTE] @
               ''not (unmapped or mate_is_unmapped) and paired and not duplicate'' @ [QUOTE] @
               '' -q  -f bam -t 4 -o /scratch/sample1/15x/sample1.dupRm.bam /data/sample1.bam''),
       Mkdir ''/scratch/sample1/15x/R1'',
       System ''mosdepth --no-per-base --threads 4 /scratch/sample1/15x/R1/sample1 /scratch/sample1/15x/sample1.dupRm.bam '',
       Open ''/scratch/sample1/15x/R1/sample1.mosdepth.summary.txt''])"
proof -
  have cov: "get_coverage_loop deep_report 0 0 = Inr (1000, 30000)"
    by (simp add: deep_report_def row_deep)
  show ?thesis
    by (simp add: main_def run_args_def set_logging_DEBUG check_type_sample1 get_ID_sample1
        temp_output_loc_tmp then_do_def
        remove_dup_run [OF py_int_4] str_int_4
        get_coverage_run [OF report_read_env_ok] cov get_fraction_str env_ok_sel)
qed

end
